theory Spec2Isabelle
  imports Main "HOL-Library.AList"
begin

section \<open>Strings as the orchestrator reads them\<close>

text \<open>
  The orchestrator of \<^verbatim>\<open>geospatial_agents/orchestrator_langgraph.py\<close> works on Python
  \<^verbatim>\<open>str\<close> values. A \<^typ>\<open>string\<close> here is a list of code points below 256; the character
  classes below follow Python's tables for those code points (\<^verbatim>\<open>str.lower\<close>, and the
  classes \<^verbatim>\<open>\s\<close>, \<^verbatim>\<open>\d\<close>, \<^verbatim>\<open>\w\<close> of the \<^verbatim>\<open>re\<close> module on \<^verbatim>\<open>str\<close> patterns).
\<close>

definition code :: "char \<Rightarrow> nat" where
  "code c = of_char c"

definition lower_char :: "char \<Rightarrow> char" where
  "lower_char c =
     (if (65 \<le> code c \<and> code c \<le> 90) \<or> (192 \<le> code c \<and> code c \<le> 222 \<and> code c \<noteq> 215)
      then char_of (code c + 32) else c)"

definition str_lower :: "string \<Rightarrow> string" where
  "str_lower s = map lower_char s"

definition is_space :: "char \<Rightarrow> bool" where
  "is_space c \<longleftrightarrow>
     (9 \<le> code c \<and> code c \<le> 13) \<or> (28 \<le> code c \<and> code c \<le> 32) \<or> code c = 133 \<or> code c = 160"

definition is_digit :: "char \<Rightarrow> bool" where
  "is_digit c \<longleftrightarrow> 48 \<le> code c \<and> code c \<le> 57"

definition is_word_char :: "char \<Rightarrow> bool" where
  "is_word_char c \<longleftrightarrow>
     is_digit c \<or> (65 \<le> code c \<and> code c \<le> 90) \<or> (97 \<le> code c \<and> code c \<le> 122) \<or> code c = 95
     \<or> code c = 170 \<or> code c = 178 \<or> code c = 179 \<or> code c = 181 \<or> code c = 185 \<or> code c = 186
     \<or> (188 \<le> code c \<and> code c \<le> 190)
     \<or> (192 \<le> code c \<and> code c \<noteq> 215 \<and> code c \<noteq> 247)"

text \<open>\<^verbatim>\<open>s.startswith(p)\<close>, \<^verbatim>\<open>s.endswith(p)\<close> and the substring test \<^verbatim>\<open>sub in s\<close>.\<close>

fun startswith :: "string \<Rightarrow> string \<Rightarrow> bool" where
  "startswith s [] = True"
| "startswith [] (p # ps) = False"
| "startswith (c # cs) (p # ps) = (c = p \<and> startswith cs ps)"

definition endswith :: "string \<Rightarrow> string \<Rightarrow> bool" where
  "endswith s p = startswith (rev s) (rev p)"

fun str_in :: "string \<Rightarrow> string \<Rightarrow> bool" where
  "str_in sub [] = (sub = [])"
| "str_in sub (c # cs) = (startswith (c # cs) sub \<or> str_in sub cs)"

text \<open>
  \<^verbatim>\<open>s.replace(old, new)\<close> for a non-empty \<^verbatim>\<open>old\<close>: every occurrence, left to right, without
  overlap. The \<open>nat\<close> argument counts the characters of the current occurrence still to be dropped.
\<close>

fun replace_from :: "nat \<Rightarrow> string \<Rightarrow> string \<Rightarrow> string \<Rightarrow> string" where
  "replace_from k old new [] = []"
| "replace_from (Suc k) old new (c # cs) = replace_from k old new cs"
| "replace_from 0 old new (c # cs) =
     (if startswith (c # cs) old then new @ replace_from (length old - 1) old new cs
      else c # replace_from 0 old new cs)"

definition str_replace :: "string \<Rightarrow> string \<Rightarrow> string \<Rightarrow> string" where
  "str_replace s old new = replace_from 0 old new s"

text \<open>\<^verbatim>\<open>sep.join(xs)\<close>.\<close>

fun str_join :: "string \<Rightarrow> string list \<Rightarrow> string" where
  "str_join sep [] = []"
| "str_join sep [x] = x"
| "str_join sep (x # y # ys) = x @ sep @ str_join sep (y # ys)"

section \<open>URL detection and rewriting\<close>

text \<open>
  \<^verbatim>\<open>_extract_urls\<close> is \<^verbatim>\<open>re.findall(r'https?://[^\s<>"{}|\\^`\[\]]+', text)\<close>: at each position, left
  to right, a scheme \<^verbatim>\<open>http://\<close> or \<^verbatim>\<open>https://\<close> followed by the longest non-empty run of
  characters outside the excluded class; the scan resumes after the match. The excluded
  punctuation is listed by code point, in the order of the pattern.
\<close>

definition url_char :: "char \<Rightarrow> bool" where
  "url_char c \<longleftrightarrow> \<not> is_space c \<and> code c \<notin> set [60, 62, 34, 123, 125, 124, 92, 94, 96, 91, 93]"

definition scheme_len :: "string \<Rightarrow> nat" where
  "scheme_len s = (if startswith s ''https://'' then 8 else if startswith s ''http://'' then 7 else 0)"

definition url_match :: "string \<Rightarrow> (string \<times> string) option" where
  "url_match s =
     (let n = scheme_len s; body = takeWhile url_char (drop n s)
      in if n = 0 \<or> body = [] then None
         else Some (take n s @ body, dropWhile url_char (drop n s)))"

lemma url_match_shorter: "url_match s = Some (u, r) \<Longrightarrow> length r < length s"
proof -
  assume m: "url_match s = Some (u, r)"
  then have n: "scheme_len s \<noteq> 0" and r: "r = dropWhile url_char (drop (scheme_len s) s)"
    by (auto simp: url_match_def Let_def split: if_splits)
  have "s \<noteq> []" using n by (auto simp: scheme_len_def)
  moreover have "length r \<le> length s - scheme_len s"
    unfolding r using length_dropWhile_le [of url_char "drop (scheme_len s) s"] by simp
  ultimately show ?thesis using n by (cases s) auto
qed

function extract_urls :: "string \<Rightarrow> string list" where
  "extract_urls [] = []"
| "extract_urls (c # cs) =
     (case url_match (c # cs) of
        Some (u, r) \<Rightarrow> u # extract_urls r
      | None \<Rightarrow> extract_urls cs)"
  by pat_completeness auto
termination
  by (relation "measure length") (auto dest: url_match_shorter)

definition is_huggingface_url :: "string \<Rightarrow> bool" where
  "is_huggingface_url url \<longleftrightarrow>
     str_in ''huggingface.co'' (str_lower url) \<and> str_in ''/datasets/'' (str_lower url)"

definition convert_github_blob_url :: "string \<Rightarrow> string" where
  "convert_github_blob_url url =
     (if str_in ''github.com'' url \<and> str_in ''/blob/'' url then
        if endswith url ''/'' then url
        else str_replace (str_replace url ''github.com'' ''raw.githubusercontent.com'') ''/blob/'' ''/''
      else url)"

section \<open>Plans\<close>

text \<open>
  A task is the dict \<^verbatim>\<open>{"step_type", "description", "parameters", "dependencies"}\<close>. Parameter
  values are strings, integers or lists of strings; the dict keeps insertion order, so it is an
  association list. The keys \<^verbatim>\<open>description\<close>, \<^verbatim>\<open>parameters\<close> and \<^verbatim>\<open>dependencies\<close> are read
  everywhere through \<^verbatim>\<open>.get(key, default)\<close> with one default each (\<^verbatim>\<open>""\<close>, \<^verbatim>\<open>{}\<close>, \<^verbatim>\<open>[]\<close>), so
  a task that lacks one of them is held here with that default. \<^verbatim>\<open>step_type\<close> is read with
  different defaults in different places, so its absence is kept: \<open>None\<close>.
\<close>

datatype pval = PStr string | PInt int | PList "string list"

record task =
  step_type :: "string option"
  description :: string
  parameters :: "(string \<times> pval) list"
  dependencies :: "int list"

type_synonym plan = "task list"

definition mk_task :: "string \<Rightarrow> string \<Rightarrow> (string \<times> pval) list \<Rightarrow> int list \<Rightarrow> task" where
  "mk_task ty d ps deps = \<lparr>step_type = Some ty, description = d, parameters = ps, dependencies = deps\<rparr>"

text \<open>\<^verbatim>\<open>any(keyword in request_lower for keyword in keywords)\<close>.\<close>

definition any_keyword :: "string list \<Rightarrow> string \<Rightarrow> bool" where
  "any_keyword kws request_lower = list_ex (\<lambda>k. str_in k request_lower) kws"

definition download_keywords :: "string list" where
  "download_keywords = [''download'', ''get'', ''fetch'', ''retrieve'', ''obtain'']"

definition process_keywords :: "string list" where
  "process_keywords =
     [''process'', ''analyze'', ''transform'', ''reproject'', ''clip'', ''calculate'', ''compute'']"

definition viz_keywords :: "string list" where
  "viz_keywords =
     [''visualize'', ''map'', ''plot'', ''show'', ''display'', ''create map'', ''risk map'']"

definition export_keywords :: "string list" where
  "export_keywords = [''export'', ''save'', ''output'']"

text \<open>\<^verbatim>\<open>default_limit = requested_limit if requested_limit else 10\<close>: \<^verbatim>\<open>None\<close> and \<^verbatim>\<open>0\<close> are falsy.\<close>

definition default_limit :: "int option \<Rightarrow> int" where
  "default_limit requested_limit =
     (case requested_limit of None \<Rightarrow> 10 | Some n \<Rightarrow> if n \<noteq> 0 then n else 10)"

text \<open>The conversion loop of the download intent: HuggingFace URLs are kept, the others converted.\<close>

definition convert_keep_hf :: "string list \<Rightarrow> string list" where
  "convert_keep_hf urls =
     map (\<lambda>url. if is_huggingface_url url then url else convert_github_blob_url url) urls"

text \<open>\<^verbatim>\<open>converted_urls[0] if len(converted_urls) == 1 else converted_urls\<close>.\<close>

definition url_value :: "string list \<Rightarrow> pval" where
  "url_value converted = (case converted of [u] \<Rightarrow> PStr u | _ \<Rightarrow> PList converted)"

text \<open>\<^verbatim>\<open>[len(workflow) - 1] if workflow else []\<close>.\<close>

definition dep_on_last :: "plan \<Rightarrow> int list" where
  "dep_on_last workflow = (if workflow \<noteq> [] then [int (length workflow) - 1] else [])"

text \<open>\<^verbatim>\<open>[0] if workflow and workflow[0].get("step_type") == "search" else []\<close>.\<close>

definition dep_on_search :: "plan \<Rightarrow> int list" where
  "dep_on_search workflow =
     (case workflow of [] \<Rightarrow> [] | t # _ \<Rightarrow> if step_type t = Some ''search'' then [0] else [])"

definition has_step_in :: "string list \<Rightarrow> plan \<Rightarrow> bool" where
  "has_step_in tys workflow = list_ex (\<lambda>step. step_type step \<in> Some ` set tys) workflow"

text \<open>
  \<^verbatim>\<open>_create_smart_default_workflow\<close>, one definition per block of the source; each takes the
  workflow built so far and returns it extended.
\<close>

definition search_task :: "string \<Rightarrow> int option \<Rightarrow> task" where
  "search_task user_request requested_limit =
     mk_task ''search'' (''Search for geospatial datasets related to: '' @ user_request)
       [(''query'', PStr user_request), (''limit'', PInt (default_limit requested_limit))] []"

definition add_search :: "string \<Rightarrow> int option \<Rightarrow> plan \<Rightarrow> plan" where
  "add_search user_request requested_limit workflow =
     (let request_lower = str_lower user_request; has_url = (extract_urls user_request \<noteq> [])
      in if \<not> has_url \<and> (\<not> str_in ''download'' request_lower \<or> str_in ''search'' request_lower)
         then workflow @ [search_task user_request requested_limit]
         else workflow)"

definition add_download :: "string \<Rightarrow> int option \<Rightarrow> plan \<Rightarrow> plan" where
  "add_download user_request requested_limit workflow =
     (let request_lower = str_lower user_request; urls = extract_urls user_request;
          has_url = (urls \<noteq> [])
      in if any_keyword download_keywords request_lower \<or> has_url then
           let download_params = [(''limit'', PInt (min (default_limit requested_limit) 5))];
               download_params =
                 (if has_url then
                    download_params @ [(''url'', url_value (convert_keep_hf urls)),
                                       (''urls'', PList (convert_keep_hf urls))]
                  else download_params)
           in workflow @
                [mk_task ''download''
                   (''Download '' @ (if has_url then ''from URL'' else ''the identified datasets''))
                   download_params
                   (if workflow \<noteq> [] \<and> \<not> has_url then [0] else [])]
         else workflow)"

definition add_process :: "string \<Rightarrow> plan \<Rightarrow> plan" where
  "add_process user_request workflow =
     (if any_keyword process_keywords (str_lower user_request) then
        workflow @ [mk_task ''process'' (''Process the downloaded data: '' @ user_request) []
                      (dep_on_last workflow)]
      else workflow)"

definition add_visualization :: "string \<Rightarrow> int option \<Rightarrow> plan \<Rightarrow> plan" where
  "add_visualization user_request requested_limit workflow =
     (let has_url = (extract_urls user_request \<noteq> [])
      in if any_keyword viz_keywords (str_lower user_request) then
           let has_data_step = has_step_in [''download'', ''process'', ''analysis''] workflow;
               workflow =
                 (if \<not> has_data_step \<and> \<not> has_url then
                    workflow @ [mk_task ''download'' ''Download datasets needed for visualization''
                                  [(''limit'', PInt (min (default_limit requested_limit) 5))]
                                  (dep_on_search workflow)]
                  else workflow)
           in workflow @ [mk_task ''visualization'' ''Create visualization of the results'' []
                            (dep_on_last workflow)]
         else workflow)"

definition add_export :: "string \<Rightarrow> int option \<Rightarrow> plan \<Rightarrow> plan" where
  "add_export user_request requested_limit workflow =
     (let has_url = (extract_urls user_request \<noteq> [])
      in if any_keyword export_keywords (str_lower user_request) then
           let has_data_step =
                 has_step_in [''download'', ''process'', ''analysis'', ''visualization''] workflow;
               workflow =
                 (if \<not> has_data_step \<and> \<not> has_url then
                    workflow @ [mk_task ''download'' ''Download datasets needed for export''
                                  [(''limit'', PInt (min (default_limit requested_limit) 5))]
                                  (dep_on_search workflow)]
                  else workflow)
           in workflow @ [mk_task ''export'' ''Export the results'' [(''format'', PStr ''geojson'')]
                            (dep_on_last workflow)]
         else workflow)"

text \<open>\<^verbatim>\<open>len(workflow) == 1 and workflow[0]["step_type"] == "search"\<close>.\<close>

definition only_search :: "plan \<Rightarrow> bool" where
  "only_search workflow = (case workflow of [t] \<Rightarrow> step_type t = Some ''search'' | _ \<Rightarrow> False)"

definition add_late_download :: "string \<Rightarrow> int option \<Rightarrow> plan \<Rightarrow> plan" where
  "add_late_download user_request requested_limit workflow =
     (let urls = extract_urls user_request; has_url = (urls \<noteq> [])
      in if (workflow = [] \<or> only_search workflow) \<and> str_in ''download'' (str_lower user_request) then
           let download_params = [(''limit'', PInt (min (default_limit requested_limit) 5))];
               download_params =
                 (if has_url then
                    download_params @ [(''url'', url_value (map convert_github_blob_url urls)),
                                       (''urls'', PList (map convert_github_blob_url urls))]
                  else download_params)
           in workflow @
                [mk_task ''download''
                   (''Download '' @ (if has_url then ''from URL'' else ''the identified datasets''))
                   download_params
                   (if workflow \<noteq> [] then [0] else [])]
         else workflow)"

definition create_smart_default_workflow :: "string \<Rightarrow> int option \<Rightarrow> plan" where
  "create_smart_default_workflow user_request requested_limit =
     (let urls = extract_urls user_request; has_url = (urls \<noteq> []);
          workflow = add_search user_request requested_limit [];
          workflow = add_download user_request requested_limit workflow;
          workflow = add_process user_request workflow;
          workflow = add_visualization user_request requested_limit workflow;
          workflow = add_export user_request requested_limit workflow;
          workflow = add_late_download user_request requested_limit workflow
      in if has_url \<and> workflow = [] then
           [mk_task ''download'' ''Download dataset from URL''
              [(''url'', url_value (map convert_github_blob_url urls)),
               (''urls'', PList (map convert_github_blob_url urls))] []]
         else if workflow \<noteq> [] then workflow
         else [search_task user_request requested_limit])"

section \<open>The quantity extractor\<close>

text \<open>
  \<^verbatim>\<open>_extract_number\<close> runs two \<^verbatim>\<open>re.findall\<close> scans of the shape \<^verbatim>\<open>\b(X)\b\<close>. A scan tries each
  position from left to right; at a position where \<^verbatim>\<open>\b\<close> holds it tries the candidate lengths
  of \<^verbatim>\<open>X\<close> in the order the regex engine does (longest first for the greedy \<^verbatim>\<open>\d+\<close>, the order
  of the alternatives for \<^verbatim>\<open>one|two|...\<close>) and keeps the first after which \<^verbatim>\<open>\b\<close> holds again; the
  scan resumes after a match. The \<open>bool\<close> argument says whether the character before the
  position is a word character.
\<close>

definition boundary :: "bool \<Rightarrow> string \<Rightarrow> bool" where
  "boundary prev_word s = (prev_word \<noteq> (case s of [] \<Rightarrow> False | c # _ \<Rightarrow> is_word_char c))"

definition last_is_word :: "bool \<Rightarrow> string \<Rightarrow> bool" where
  "last_is_word prev_word m = (if m = [] then prev_word else is_word_char (last m))"

definition match_at :: "(string \<Rightarrow> nat list) \<Rightarrow> bool \<Rightarrow> string \<Rightarrow> nat option" where
  "match_at cands prev_word s =
     (if boundary prev_word s then
        find (\<lambda>k. boundary (last_is_word prev_word (take k s)) (drop k s)) (cands s)
      else None)"

fun findall_b :: "(string \<Rightarrow> nat list) \<Rightarrow> nat \<Rightarrow> bool \<Rightarrow> string \<Rightarrow> string list" where
  "findall_b cands skip prev_word [] = []"
| "findall_b cands (Suc skip) prev_word (c # cs) = findall_b cands skip (is_word_char c) cs"
| "findall_b cands 0 prev_word (c # cs) =
     (case match_at cands prev_word (c # cs) of
        Some (Suc k) \<Rightarrow> take (Suc k) (c # cs) # findall_b cands k (is_word_char c) cs
      | _ \<Rightarrow> findall_b cands 0 (is_word_char c) cs)"

text \<open>\<^verbatim>\<open>\d+\<close>, greedy: the whole run of digits first, then each shorter prefix.\<close>

definition digits_cands :: "string \<Rightarrow> nat list" where
  "digits_cands s = rev [1 ..< Suc (length (takeWhile is_digit s))]"

definition number_vocabulary :: "string list" where
  "number_vocabulary =
     [''one'', ''two'', ''three'', ''four'', ''five'', ''six'', ''seven'', ''eight'', ''nine'', ''ten'',
      ''eleven'', ''twelve'', ''thirteen'', ''fourteen'', ''fifteen'', ''sixteen'', ''seventeen'',
      ''eighteen'', ''nineteen'', ''twenty'', ''thirty'', ''forty'', ''fifty'', ''hundred'',
      ''thousand'']"

definition vocab_cands :: "string \<Rightarrow> nat list" where
  "vocab_cands s = map length (filter (startswith s) number_vocabulary)"

text \<open>\<^verbatim>\<open>int(numbers[0])\<close> on a string of decimal digits.\<close>

definition int_of_digits :: "string \<Rightarrow> int" where
  "int_of_digits ds = foldl (\<lambda>acc c. 10 * acc + (int (code c) - 48)) 0 ds"

text \<open>
  \<^verbatim>\<open>w2n.word_to_num\<close> belongs to the \<^verbatim>\<open>word2number\<close> package, not to this repository: it is
  the parameter \<open>w2n\<close>, with \<open>None\<close> when the import fails or the call raises \<^verbatim>\<open>ValueError\<close>
  (the two exceptions the source catches).
\<close>

definition number_phrases :: "string \<Rightarrow> string list" where
  "number_phrases text = findall_b vocab_cands 0 False (str_lower text)"

text \<open>\<^verbatim>\<open>number_str = ' '.join(number_phrases[:3])\<close>.\<close>

definition number_str :: "string \<Rightarrow> string" where
  "number_str text = str_join '' '' (take 3 (number_phrases text))"

definition extract_number :: "(string \<Rightarrow> int option) \<Rightarrow> string \<Rightarrow> int option" where
  "extract_number w2n text =
     (case findall_b digits_cands 0 False text of
        n # _ \<Rightarrow> Some (int_of_digits n)
      | [] \<Rightarrow> (if number_phrases text \<noteq> [] then w2n (number_str text) else None))"

section \<open>Workflow state and the agents\<close>

datatype message = HumanMessage string | AIMessage string

text \<open>
  \<^verbatim>\<open>WorkflowState\<close>. Datasets, paths and artifacts are opaque to the orchestrator and are held
  as strings; the three dicts keep insertion order.
\<close>

record workflow_state =
  user_request :: string
  workflow_plan :: plan
  current_step :: nat
  total_steps :: nat
  search_results :: "string list"
  downloaded_data :: "(string \<times> string) list"
  processed_data :: "(string \<times> string) list"
  spatial_queries :: "string list"
  transformations :: "string list"
  analysis_results :: "(string \<times> string) list"
  visualizations :: "string list"
  exports :: "string list"
  errors :: "string list"
  messages :: "message list"
  final_outputs :: "string list"

text \<open>
  The dict an agent's \<^verbatim>\<open>execute\<close> returns, one optional field per key the orchestrator looks at
  (\<open>None\<close>: the key is absent).
\<close>

record agent_result =
  r_results :: "string list option"
  r_downloaded_data :: "(string \<times> string) list option"
  r_filtered_data :: "string option"
  r_transformed_data :: "string option"
  r_processed_data :: "string option"
  r_analysis :: "string option"
  r_visualization_path :: "string option"
  r_export_path :: "string option"
  r_error :: "string option"

text \<open>
  An agent is called as \<^verbatim>\<open>agent.execute(task_description=..., parameters=..., context=state)\<close>. The
  agents of this repository read \<^verbatim>\<open>context\<close> and never write to it, so a call either raises an
  exception \<open>e\<close>, given by its text \<^verbatim>\<open>str(e)\<close> (\<open>Inl\<close>), or returns a result dict (\<open>Inr\<close>).
\<close>

type_synonym agent = "string \<Rightarrow> (string \<times> pval) list \<Rightarrow> workflow_state \<Rightarrow> string + agent_result"

record agents =
  search_agent :: agent
  download_agent :: agent
  spatial_query_agent :: agent
  transform_agent :: agent
  process_agent :: agent
  analysis_agent :: agent
  visualization_agent :: agent
  export_agent :: agent

datatype failure = IndexError | NoEdge string

text \<open>Decimal text of a number inside an f-string.\<close>

function show_nat :: "nat \<Rightarrow> string" where
  "show_nat n = (if n < 10 then [char_of (48 + n)] else show_nat (n div 10) @ [char_of (48 + n mod 10)])"
  by pat_completeness auto
termination
  by (relation "measure id") auto

text \<open>\<^verbatim>\<open>d.update(other)\<close> and \<^verbatim>\<open>len(d)\<close> on dicts held as association lists.\<close>

definition dict_update :: "(string \<times> string) list \<Rightarrow> (string \<times> string) list \<Rightarrow> (string \<times> string) list" where
  "dict_update d other = foldl (\<lambda>acc (k, v). AList.update k v acc) d other"

definition dict_len :: "(string \<times> string) list \<Rightarrow> nat" where
  "dict_len d = length (remdups (map fst d))"

section \<open>The router\<close>

text \<open>The loop over \<^verbatim>\<open>dependencies\<close> with its \<^verbatim>\<open>break\<close>.\<close>

fun all_deps_met :: "nat \<Rightarrow> int list \<Rightarrow> bool" where
  "all_deps_met cs [] = True"
| "all_deps_met cs (dep_idx # deps) = (if dep_idx \<ge> int cs then False else all_deps_met cs deps)"

text \<open>
  \<^verbatim>\<open>_should_continue\<close> returns the name of the next node and, on a skip, writes
  \<^verbatim>\<open>state["current_step"]\<close> before it calls itself: the state is returned with the name.
\<close>

function should_continue :: "workflow_state \<Rightarrow> string \<times> workflow_state" where
  "should_continue state =
     (if current_step state \<ge> length (workflow_plan state) then (''end'', state)
      else if \<not> all_deps_met (current_step state)
                 (dependencies (workflow_plan state ! current_step state))
      then should_continue (state\<lparr>current_step := current_step state + 1\<rparr>)
      else (case step_type (workflow_plan state ! current_step state) of
              None \<Rightarrow> (''end'', state)
            | Some ty \<Rightarrow> (if ty \<noteq> [] then ty else ''end'', state)))"
  by pat_completeness auto
termination
  by (relation "measure (\<lambda>state. length (workflow_plan state) - current_step state)") auto

text \<open>The positions that one call of \<^verbatim>\<open>_should_continue\<close> skips, in order (same recursion).\<close>

function skipped :: "workflow_state \<Rightarrow> nat list" where
  "skipped state =
     (if current_step state \<ge> length (workflow_plan state) then []
      else if \<not> all_deps_met (current_step state)
                 (dependencies (workflow_plan state ! current_step state))
      then current_step state # skipped (state\<lparr>current_step := current_step state + 1\<rparr>)
      else [])"
  by pat_completeness auto
termination
  by (relation "measure (\<lambda>state. length (workflow_plan state) - current_step state)") auto

declare should_continue.simps [simp del] skipped.simps [simp del]

section \<open>The handlers\<close>

text \<open>
  Each handler reads \<^verbatim>\<open>workflow_plan[current_step]\<close> before its \<^verbatim>\<open>try\<close> (an \<^verbatim>\<open>IndexError\<close> there
  leaves the handler), calls its agent inside the \<^verbatim>\<open>try\<close>, merges the result on success and
  records the exception text on failure.
\<close>

definition execute_search :: "agents \<Rightarrow> workflow_state \<Rightarrow> failure + workflow_state" where
  "execute_search ags state =
     (let cs = current_step state in
      if cs \<ge> length (workflow_plan state) then Inl IndexError
      else let step = workflow_plan state ! cs in
        case search_agent ags (description step) (parameters step) state of
          Inr results \<Rightarrow>
            let found = (case r_results results of None \<Rightarrow> [] | Some xs \<Rightarrow> xs)
            in Inr (state\<lparr>search_results := found, current_step := cs + 1,
                     messages := messages state @
                       [AIMessage (if found \<noteq> []
                          then ''Search completed: found '' @ show_nat (length found) @ '' results''
                          else ''Search completed but no results found'')]\<rparr>)
        | Inl e \<Rightarrow>
            Inr (state\<lparr>errors := errors state @ [''Search step failed: '' @ e],
                  current_step := cs + 1\<rparr>))"

definition execute_download :: "agents \<Rightarrow> workflow_state \<Rightarrow> failure + workflow_state" where
  "execute_download ags state =
     (let cs = current_step state in
      if cs \<ge> length (workflow_plan state) then Inl IndexError
      else let step = workflow_plan state ! cs in
        case download_agent ags (user_request state) (parameters step) state of
          Inr results \<Rightarrow>
            let got = (case r_downloaded_data results of None \<Rightarrow> [] | Some d \<Rightarrow> d)
            in Inr (state\<lparr>downloaded_data := dict_update (downloaded_data state) got,
                     current_step := cs + 1,
                     messages := messages state @
                       [AIMessage (''Download completed: '' @ show_nat (dict_len got) @ '' datasets'')]\<rparr>)
        | Inl e \<Rightarrow>
            Inr (state\<lparr>errors := errors state @ [''Download step failed: '' @ e],
                  current_step := cs + 1\<rparr>))"

definition execute_spatial_query :: "agents \<Rightarrow> workflow_state \<Rightarrow> failure + workflow_state" where
  "execute_spatial_query ags state =
     (let cs = current_step state in
      if cs \<ge> length (workflow_plan state) then Inl IndexError
      else let step = workflow_plan state ! cs in
        case spatial_query_agent ags (description step) (parameters step) state of
          Inr results \<Rightarrow>
            Inr (state\<lparr>processed_data :=
                     (case r_filtered_data results of
                        None \<Rightarrow> processed_data state
                      | Some d \<Rightarrow> AList.update (''spatial_query_'' @ show_nat cs) d (processed_data state)),
                   current_step := cs + 1,
                   messages := messages state @ [AIMessage ''Spatial query completed'']\<rparr>)
        | Inl e \<Rightarrow>
            Inr (state\<lparr>errors := errors state @ [''Spatial query step failed: '' @ e],
                  current_step := cs + 1\<rparr>))"

definition execute_transform :: "agents \<Rightarrow> workflow_state \<Rightarrow> failure + workflow_state" where
  "execute_transform ags state =
     (let cs = current_step state in
      if cs \<ge> length (workflow_plan state) then Inl IndexError
      else let step = workflow_plan state ! cs in
        case transform_agent ags (description step) (parameters step) state of
          Inr results \<Rightarrow>
            Inr (state\<lparr>processed_data :=
                     (case r_transformed_data results of
                        None \<Rightarrow> processed_data state
                      | Some d \<Rightarrow> AList.update (''transform_'' @ show_nat cs) d (processed_data state)),
                   current_step := cs + 1,
                   messages := messages state @ [AIMessage ''Transform completed'']\<rparr>)
        | Inl e \<Rightarrow>
            Inr (state\<lparr>errors := errors state @ [''Transform step failed: '' @ e],
                  current_step := cs + 1\<rparr>))"

definition execute_process :: "agents \<Rightarrow> workflow_state \<Rightarrow> failure + workflow_state" where
  "execute_process ags state =
     (let cs = current_step state in
      if cs \<ge> length (workflow_plan state) then Inl IndexError
      else let step = workflow_plan state ! cs in
        case process_agent ags (description step) (parameters step) state of
          Inr results \<Rightarrow>
            Inr (state\<lparr>processed_data :=
                     (case r_processed_data results of
                        None \<Rightarrow> processed_data state
                      | Some d \<Rightarrow> AList.update (''process_'' @ show_nat cs) d (processed_data state)),
                   current_step := cs + 1,
                   messages := messages state @ [AIMessage ''Processing completed'']\<rparr>)
        | Inl e \<Rightarrow>
            Inr (state\<lparr>errors := errors state @ [''Process step failed: '' @ e],
                  current_step := cs + 1\<rparr>))"

text \<open>\<^verbatim>\<open>results.get("analysis", {})\<close>: the empty dict is held as its text.\<close>

definition execute_analysis :: "agents \<Rightarrow> workflow_state \<Rightarrow> failure + workflow_state" where
  "execute_analysis ags state =
     (let cs = current_step state in
      if cs \<ge> length (workflow_plan state) then Inl IndexError
      else let step = workflow_plan state ! cs in
        case analysis_agent ags (description step) (parameters step) state of
          Inr results \<Rightarrow>
            Inr (state\<lparr>analysis_results :=
                     AList.update (''analysis_'' @ show_nat cs)
                       (case r_analysis results of None \<Rightarrow> ''{}'' | Some a \<Rightarrow> a)
                       (analysis_results state),
                   current_step := cs + 1,
                   messages := messages state @ [AIMessage ''Analysis completed'']\<rparr>)
        | Inl e \<Rightarrow>
            Inr (state\<lparr>errors := errors state @ [''Analysis step failed: '' @ e],
                  current_step := cs + 1\<rparr>))"

text \<open>A path is kept when the key is present and its value is truthy (a non-empty string).\<close>

definition truthy_path :: "string option \<Rightarrow> string option" where
  "truthy_path p = (case p of Some (c # cs) \<Rightarrow> Some (c # cs) | _ \<Rightarrow> None)"

definition execute_visualization :: "agents \<Rightarrow> workflow_state \<Rightarrow> failure + workflow_state" where
  "execute_visualization ags state =
     (let cs = current_step state in
      if cs \<ge> length (workflow_plan state) then Inl IndexError
      else let step = workflow_plan state ! cs in
        case visualization_agent ags (description step) (parameters step) state of
          Inr results \<Rightarrow>
            Inr (state\<lparr>visualizations :=
                     (case truthy_path (r_visualization_path results) of
                        Some path \<Rightarrow> visualizations state @ [path]
                      | None \<Rightarrow> visualizations state),
                   current_step := cs + 1,
                   messages := messages state @ [AIMessage ''Visualization completed'']\<rparr>)
        | Inl e \<Rightarrow>
            Inr (state\<lparr>errors := errors state @ [''Visualization step failed: '' @ e],
                  current_step := cs + 1\<rparr>))"

definition execute_export :: "agents \<Rightarrow> workflow_state \<Rightarrow> failure + workflow_state" where
  "execute_export ags state =
     (let cs = current_step state in
      if cs \<ge> length (workflow_plan state) then Inl IndexError
      else let step = workflow_plan state ! cs in
        case export_agent ags (description step) (parameters step) state of
          Inr results \<Rightarrow>
            Inr (state\<lparr>exports :=
                     (case truthy_path (r_export_path results) of
                        Some path \<Rightarrow> exports state @ [path]
                      | None \<Rightarrow> exports state),
                   final_outputs :=
                     (case truthy_path (r_export_path results) of
                        Some path \<Rightarrow> final_outputs state @ [path]
                      | None \<Rightarrow> final_outputs state),
                   current_step := cs + 1,
                   messages := messages state @ [AIMessage ''Export completed'']\<rparr>)
        | Inl e \<Rightarrow>
            Inr (state\<lparr>errors := errors state @ [''Export step failed: '' @ e],
                  current_step := cs + 1\<rparr>))"

section \<open>The graph\<close>

text \<open>
  \<^verbatim>\<open>_build_workflow\<close> declares the nodes and edges: the planner leads to the router, the router
  node returns its state unchanged, its conditional edge calls \<^verbatim>\<open>_should_continue\<close> and looks the
  returned name up in the dict below, and every handler node leads back to the router. The
  runtime that walks the graph belongs to the \<^verbatim>\<open>langgraph\<close> package, not to this repository.
  It is taken to do what the declaration says, round after round and without a bound on the
  number of rounds, on one state object: the write of \<^verbatim>\<open>_should_continue\<close> on a skip is seen by
  the node that runs next, as the writes of the handlers are. A name that the dict of the
  conditional edge lacks has no target: the run stops there without a final state (\<open>NoEdge\<close>).
\<close>

datatype node =
  Search | Download | Spatial_query | Transform | Process | Analysis | Visualization | Export | END

definition conditional_edges :: "(string \<times> node) list" where
  "conditional_edges =
     [(''search'', Search), (''download'', Download), (''spatial_query'', Spatial_query),
      (''transform'', Transform), (''process'', Process), (''analysis'', Analysis),
      (''visualization'', Visualization), (''export'', Export), (''end'', END)]"

fun node_fn :: "node \<Rightarrow> agents \<Rightarrow> workflow_state \<Rightarrow> failure + workflow_state" where
  "node_fn Search = execute_search"
| "node_fn Download = execute_download"
| "node_fn Spatial_query = execute_spatial_query"
| "node_fn Transform = execute_transform"
| "node_fn Process = execute_process"
| "node_fn Analysis = execute_analysis"
| "node_fn Visualization = execute_visualization"
| "node_fn Export = execute_export"
| "node_fn END = (\<lambda>ags state. Inr state)"

datatype outcome = Finished workflow_state | Raised failure

text \<open>
  One round from the router: either the run is over (\<open>Inl\<close>), or a handler node ran at a
  position and left a new state (\<open>Inr\<close>).
\<close>

definition graph_round :: "agents \<Rightarrow> workflow_state \<Rightarrow> outcome + node \<times> nat \<times> workflow_state" where
  "graph_round ags state =
     (case should_continue state of
        (name, state') \<Rightarrow>
          (case map_of conditional_edges name of
             None \<Rightarrow> Inl (Raised (NoEdge name))
           | Some n \<Rightarrow>
               if n = END then Inl (Finished state')
               else (case node_fn n ags state' of
                       Inl e \<Rightarrow> Inl (Raised e)
                     | Inr state'' \<Rightarrow> Inr (n, current_step state', state''))))"

text \<open>The router moves the position forward only; a handler node moves it by one.\<close>

lemma should_continue_keeps:
  "should_continue s = (name, s') \<Longrightarrow>
     workflow_plan s' = workflow_plan s \<and> current_step s \<le> current_step s' \<and>
     total_steps s' = total_steps s \<and> errors s' = errors s \<and> messages s' = messages s"
proof (induction s arbitrary: name s' rule: should_continue.induct)
  case (1 state)
  show ?case
  proof (cases "current_step state \<ge> length (workflow_plan state)")
    case True
    with "1.prems" show ?thesis by (simp add: should_continue.simps [of state])
  next
    case False
    show ?thesis
    proof (cases "all_deps_met (current_step state) (dependencies (workflow_plan state ! current_step state))")
      case True
      with False "1.prems" show ?thesis
        by (auto simp: should_continue.simps [of state] split: option.splits if_splits)
    next
      case unmet: False
      with False "1.prems"
      have "should_continue (state\<lparr>current_step := current_step state + 1\<rparr>) = (name, s')"
        by (simp add: should_continue.simps [of state])
      from "1.IH" [OF _ unmet this] False show ?thesis by simp
    qed
  qed
qed

lemma should_continue_plan:
  assumes "should_continue s = (name, s')"
  shows "workflow_plan s' = workflow_plan s" and "total_steps s' = total_steps s"
    and "errors s' = errors s" and "messages s' = messages s"
    and "current_step s \<le> current_step s'"
  using should_continue_keeps [OF assms] by blast+

definition advances :: "workflow_state \<Rightarrow> failure + workflow_state \<Rightarrow> bool" where
  "advances s r =
     (case r of
        Inl e \<Rightarrow> False
      | Inr s' \<Rightarrow> current_step s' = current_step s + 1 \<and> workflow_plan s' = workflow_plan s \<and>
                 total_steps s' = total_steps s)"

lemma advancesD:
  "advances s r \<Longrightarrow> \<exists>s'. r = Inr s' \<and> current_step s' = current_step s + 1 \<and>
     workflow_plan s' = workflow_plan s \<and> total_steps s' = total_steps s"
  by (cases r) (simp_all add: advances_def)

lemma node_fn_advances:
  assumes "current_step s < length (workflow_plan s)" and "n \<noteq> END"
  shows "advances s (node_fn n ags s)"
proof (cases n)
  case Search
  with assms show ?thesis by (simp add: advances_def execute_search_def Let_def split: sum.split)
next
  case Download
  with assms show ?thesis by (simp add: advances_def execute_download_def Let_def split: sum.split)
next
  case Spatial_query
  with assms show ?thesis
    by (simp add: advances_def execute_spatial_query_def Let_def split: sum.split)
next
  case Transform
  with assms show ?thesis by (simp add: advances_def execute_transform_def Let_def split: sum.split)
next
  case Process
  with assms show ?thesis by (simp add: advances_def execute_process_def Let_def split: sum.split)
next
  case Analysis
  with assms show ?thesis by (simp add: advances_def execute_analysis_def Let_def split: sum.split)
next
  case Visualization
  with assms show ?thesis
    by (simp add: advances_def execute_visualization_def Let_def split: sum.split)
next
  case Export
  with assms show ?thesis by (simp add: advances_def execute_export_def Let_def split: sum.split)
next
  case END
  with assms show ?thesis by simp
qed

lemma node_fn_out_of_range:
  assumes "\<not> current_step s < length (workflow_plan s)" and "n \<noteq> END"
  shows "node_fn n ags s = Inl IndexError"
  using assms
  by (cases n)
     (simp_all add: execute_search_def execute_download_def execute_spatial_query_def
        execute_transform_def execute_process_def execute_analysis_def
        execute_visualization_def execute_export_def Let_def)

lemma graph_round_Inr:
  assumes "graph_round ags s = Inr (n, i, s')"
  shows "workflow_plan s' = workflow_plan s" and "total_steps s' = total_steps s"
    and "current_step s \<le> i" and "i < length (workflow_plan s)"
    and "current_step s' = i + 1" and "n \<noteq> END"
proof -
  obtain name st where sc: "should_continue s = (name, st)" by (cases "should_continue s")
  from assms sc have n: "n \<noteq> END" and i: "current_step st = i" and nf: "node_fn n ags st = Inr s'"
    by (auto simp: graph_round_def split: option.splits if_splits sum.splits)
  have lt: "current_step st < length (workflow_plan st)"
    using node_fn_out_of_range [OF _ n, of st ags] nf by auto
  from advancesD [OF node_fn_advances [OF lt n, of ags]] nf
  have h: "current_step s' = current_step st + 1" "workflow_plan s' = workflow_plan st"
    "total_steps s' = total_steps st" by auto
  note r = should_continue_plan [OF sc]
  show "workflow_plan s' = workflow_plan s" using h(2) r(1) by (rule trans)
  show "total_steps s' = total_steps s" using h(3) r(2) by (rule trans)
  show "current_step s \<le> i" using r(5) unfolding i .
  show "i < length (workflow_plan s)" using lt unfolding i r(1) .
  show "current_step s' = i + 1" using h(1) unfolding i .
  show "n \<noteq> END" by (rule n)
qed

lemma graph_round_measure:
  assumes "graph_round ags s = Inr (n, i, s')"
  shows "length (workflow_plan s') - current_step s' < length (workflow_plan s) - current_step s"
proof -
  note g = graph_round_Inr [OF assms]
  show ?thesis unfolding g(1) g(5) using g(3) g(4) by arith
qed

text \<open>The run from the router on, and the positions it visits.\<close>

function run_graph :: "agents \<Rightarrow> workflow_state \<Rightarrow> outcome" where
  "run_graph ags state =
     (case graph_round ags state of
        Inl out \<Rightarrow> out
      | Inr (n, i, state') \<Rightarrow> run_graph ags state')"
  by pat_completeness auto
termination
proof (relation "measure (\<lambda>(ags, state). length (workflow_plan state) - current_step state)")
  show "wf (measure (\<lambda>(ags, state). length (workflow_plan state) - current_step state))"
    by (rule wf_measure)
next
  fix ags state b x y xa ya
  assume "graph_round ags state = Inr b" and "(x, y) = b" and "(xa, ya) = y"
  then have "graph_round ags state = Inr (x, xa, ya)" by auto
  from graph_round_measure [OF this]
  show "((ags, ya), (ags, state))
          \<in> measure (\<lambda>(ags, state). length (workflow_plan state) - current_step state)"
    by simp
qed

datatype event = Skipped nat | Executed node nat


function visits :: "agents \<Rightarrow> workflow_state \<Rightarrow> event list" where
  "visits ags state =
     map Skipped (skipped state) @
     (case graph_round ags state of
        Inl out \<Rightarrow> []
      | Inr (n, i, state') \<Rightarrow> Executed n i # visits ags state')"
  by pat_completeness auto
termination
proof (relation "measure (\<lambda>(ags, state). length (workflow_plan state) - current_step state)")
  show "wf (measure (\<lambda>(ags, state). length (workflow_plan state) - current_step state))"
    by (rule wf_measure)
next
  fix ags state b x y xa ya
  assume "graph_round ags state = Inr b" and "(x, y) = b" and "(xa, ya) = y"
  then have "graph_round ags state = Inr (x, xa, ya)" by auto
  from graph_round_measure [OF this]
  show "((ags, ya), (ags, state))
          \<in> measure (\<lambda>(ags, state). length (workflow_plan state) - current_step state)"
    by simp
qed

declare run_graph.simps [simp del] visits.simps [simp del]

section \<open>The planner and the entry point\<close>

text \<open>
  \<^verbatim>\<open>_plan_workflow\<close> asks the language model for a plan and parses the reply. The model and the
  JSON parser are outside the repository: \<open>llm_plan\<close> is the list of tasks the parse cascade
  yields, or \<open>None\<close> when the reply holds no array or no parse succeeds, in which case the source
  calls \<^verbatim>\<open>_create_smart_default_workflow\<close>. The validation that follows is the source's: an
  empty plan is replaced by the default one, otherwise the requested limit, when truthy, is put
  into every search step that has no \<^verbatim>\<open>limit\<close>.
\<close>

definition inject_limit :: "int \<Rightarrow> task \<Rightarrow> task" where
  "inject_limit requested_limit step =
     (if step_type step = Some ''search'' \<and> map_of (parameters step) ''limit'' = None
      then step\<lparr>parameters := parameters step @ [(''limit'', PInt requested_limit)]\<rparr>
      else step)"

definition validate_plan :: "string \<Rightarrow> int option \<Rightarrow> plan \<Rightarrow> plan" where
  "validate_plan request requested_limit workflow =
     (if workflow = [] then create_smart_default_workflow request requested_limit
      else (case requested_limit of
              None \<Rightarrow> workflow
            | Some n \<Rightarrow> if n \<noteq> 0 then map (inject_limit n) workflow else workflow))"

definition plan_workflow ::
  "(string \<Rightarrow> int option) \<Rightarrow> plan option \<Rightarrow> workflow_state \<Rightarrow> workflow_state" where
  "plan_workflow w2n llm_plan state =
     (let requested_limit = extract_number w2n (user_request state);
          parsed = (case llm_plan of
                      None \<Rightarrow> create_smart_default_workflow (user_request state) requested_limit
                    | Some p \<Rightarrow> p);
          planned = validate_plan (user_request state) requested_limit parsed;
          step_types = map (\<lambda>s. case step_type s of None \<Rightarrow> ''unknown'' | Some ty \<Rightarrow> ty) planned
      in state\<lparr>workflow_plan := planned, total_steps := length planned, current_step := 0,
               messages := messages state @
                 [AIMessage (''Workflow planned with '' @ show_nat (length planned) @ '' steps: '' @
                             str_join '', '' step_types)]\<rparr>)"

definition initial_state :: "string \<Rightarrow> workflow_state" where
  "initial_state request =
     \<lparr>user_request = request, workflow_plan = [], current_step = 0, total_steps = 0,
      search_results = [], downloaded_data = [], processed_data = [], spatial_queries = [],
      transformations = [], analysis_results = [], visualizations = [], exports = [],
      errors = [], messages = [HumanMessage request], final_outputs = []\<rparr>"




text \<open>The eight step types of the planner's prompt and of the conditional edge.\<close>

definition known_step_types :: "string list" where
  "known_step_types =
     [''search'', ''download'', ''spatial_query'', ''transform'', ''process'', ''analysis'',
      ''visualization'', ''export'']"

section \<open>What the router returns\<close>

text \<open>
  The name \<^verbatim>\<open>_should_continue\<close> returns for a ready task: its \<^verbatim>\<open>step_type\<close>, or \<^verbatim>\<open>"end"\<close> when
  the key is absent or the text is empty.
\<close>

definition route_name :: "string option \<Rightarrow> string" where
  "route_name ty = (case ty of None \<Rightarrow> ''end'' | Some t \<Rightarrow> if t \<noteq> [] then t else ''end'')"




section \<open>Runs over plans of known step types\<close>








section \<open>Example plans and agents\<close>

text \<open>Agents that return an empty dict, agents that raise, and a state planned by hand.\<close>

definition empty_result :: agent_result where
  "empty_result =
     \<lparr>r_results = None, r_downloaded_data = None, r_filtered_data = None,
      r_transformed_data = None, r_processed_data = None, r_analysis = None,
      r_visualization_path = None, r_export_path = None, r_error = None\<rparr>"

definition quiet_agent :: agent where
  "quiet_agent d ps st = Inr empty_result"



definition agents_of :: "agent \<Rightarrow> agents" where
  "agents_of a =
     \<lparr>search_agent = a, download_agent = a, spatial_query_agent = a, transform_agent = a,
      process_agent = a, analysis_agent = a, visualization_agent = a, export_agent = a\<rparr>"

definition state_with :: "plan \<Rightarrow> workflow_state" where
  "state_with p = (initial_state ''demo'')\<lparr>workflow_plan := p, total_steps := length p\<rparr>"


definition odd_plan :: plan where
  "odd_plan = [mk_task ''search'' ''find'' [] [], mk_task ''filter'' ''keep'' [] [0],
               mk_task ''export'' ''save'' [] []]"

section \<open>Handler failures and names without an edge\<close>




lemma unknown_route:
  assumes "ty \<notin> Some ` set known_step_types"
  shows "map_of conditional_edges (route_name ty) =
           (if route_name ty = ''end'' then Some END else None)"
proof (cases ty)
  case None
  then show ?thesis by (simp add: route_name_def conditional_edges_def)
next
  case (Some t)
  with assms have "t \<notin> set known_step_types" by auto
  then show ?thesis
    by (simp add: Some route_name_def conditional_edges_def known_step_types_def)
qed

lemma ready_route:
  assumes "current_step s < length (workflow_plan s)"
    and "all_deps_met (current_step s) (dependencies (workflow_plan s ! current_step s))"
  shows "should_continue s = (route_name (step_type (workflow_plan s ! current_step s)), s)"
    and "skipped s = []"
  using assms
  by (simp_all add: should_continue.simps [of s] skipped.simps [of s] route_name_def
        split: option.split)

lemma unknown_type_stops:
  assumes "current_step s < length (workflow_plan s)"
    and "all_deps_met (current_step s) (dependencies (workflow_plan s ! current_step s))"
    and "step_type (workflow_plan s ! current_step s) \<notin> Some ` set known_step_types"
  shows "run_graph ags s =
           (if route_name (step_type (workflow_plan s ! current_step s)) = ''end'' then Finished s
            else Raised (NoEdge (route_name (step_type (workflow_plan s ! current_step s)))))"
    and "visits ags s = []"
proof -
  let ?name = "route_name (step_type (workflow_plan s ! current_step s))"
  note r = ready_route [OF assms(1) assms(2)]
  have g: "graph_round ags s = Inl (if ?name = ''end'' then Finished s else Raised (NoEdge ?name))"
    by (simp add: graph_round_def r(1) unknown_route [OF assms(3)])
  show "run_graph ags s = (if ?name = ''end'' then Finished s else Raised (NoEdge ?name))"
    by (subst run_graph.simps) (simp only: g sum.case)
  show "visits ags s = []"
    by (subst visits.simps) (simp only: g r(2) sum.case list.map append_Nil)
qed

section \<open>Plans of known step types\<close>
















section \<open>How the heuristic builder grows its list\<close>

text \<open>
  Every block after the first appends to the workflow built so far, and what it appends is never
  a search task.
\<close>

definition extends :: "plan \<Rightarrow> plan \<Rightarrow> bool" where
  "extends w w' \<longleftrightarrow> (\<exists>e. w' = w @ e \<and> (\<forall>t \<in> set e. step_type t \<noteq> Some ''search''))"

lemma extends_refl: "extends w w"
  by (simp add: extends_def)

lemma extends_trans:
  assumes "extends a b" and "extends b c"
  shows "extends a c"
proof -
  from assms(1) obtain e where e: "b = a @ e" "\<forall>t \<in> set e. step_type t \<noteq> Some ''search''"
    unfolding extends_def by blast
  from assms(2) obtain f where f: "c = b @ f" "\<forall>t \<in> set f. step_type t \<noteq> Some ''search''"
    unfolding extends_def by blast
  from e f have "c = a @ (e @ f)" and "\<forall>t \<in> set (e @ f). step_type t \<noteq> Some ''search''"
    by auto
  then show ?thesis unfolding extends_def by blast
qed

lemma extends_one: "ty \<noteq> ''search'' \<Longrightarrow> extends w (w @ [mk_task ty d ps deps])"
  by (simp add: extends_def mk_task_def)

lemma extends_two:
  "ty \<noteq> ''search'' \<Longrightarrow> ty' \<noteq> ''search'' \<Longrightarrow>
     extends w (w @ [mk_task ty d ps deps, mk_task ty' d' ps' deps'])"
  by (simp add: extends_def mk_task_def)

lemma add_download_extends: "extends w (add_download r l w)"
  by (simp add: add_download_def Let_def extends_refl extends_one)

lemma add_process_extends: "extends w (add_process r w)"
  by (simp add: add_process_def extends_refl extends_one)

lemma add_visualization_extends: "extends w (add_visualization r l w)"
  by (simp add: add_visualization_def Let_def extends_refl extends_one extends_two)

lemma add_export_extends: "extends w (add_export r l w)"
  by (simp add: add_export_def Let_def extends_refl extends_one extends_two)

lemma add_late_download_extends: "extends w (add_late_download r l w)"
  by (simp add: add_late_download_def Let_def extends_refl extends_one)

definition after_search :: "string \<Rightarrow> int option \<Rightarrow> plan \<Rightarrow> plan" where
  "after_search r l w =
     add_late_download r l (add_export r l (add_visualization r l (add_process r w)))"

lemma after_search_extends: "extends w (after_search r l w)"
  unfolding after_search_def
  by (rule extends_trans [OF extends_trans [OF extends_trans
        [OF add_process_extends add_visualization_extends] add_export_extends]
        add_late_download_extends])

lemma smart_default_unfold:
  "create_smart_default_workflow r l =
     (let w = after_search r l (add_download r l (add_search r l []))
      in if extract_urls r \<noteq> [] \<and> w = [] then
           [mk_task ''download'' ''Download dataset from URL''
              [(''url'', url_value (map convert_github_blob_url (extract_urls r))),
               (''urls'', PList (map convert_github_blob_url (extract_urls r)))] []]
         else if w \<noteq> [] then w
         else [search_task r l])"
  by (simp add: create_smart_default_workflow_def after_search_def Let_def)

lemma download_keyword: "str_in ''download'' rl \<Longrightarrow> any_keyword download_keywords rl"
  by (simp add: any_keyword_def download_keywords_def)

text \<open>The test that guards the first block of the builder.\<close>

definition wants_search :: "string \<Rightarrow> bool" where
  "wants_search r \<longleftrightarrow>
     extract_urls r = [] \<and> (\<not> str_in ''download'' (str_lower r) \<or> str_in ''search'' (str_lower r))"

lemma smart_default_with_search:
  assumes "wants_search r"
  shows "\<exists>rest. create_smart_default_workflow r l = search_task r l # rest \<and>
           (\<forall>t \<in> set rest. step_type t \<noteq> Some ''search'')"
proof -
  from assms have s: "add_search r l [] = [search_task r l]"
    by (simp add: wants_search_def add_search_def Let_def)
  have "extends [search_task r l] (after_search r l (add_download r l [search_task r l]))"
    by (rule extends_trans [OF add_download_extends after_search_extends])
  then obtain e where e: "after_search r l (add_download r l [search_task r l]) = [search_task r l] @ e"
    "\<forall>t \<in> set e. step_type t \<noteq> Some ''search''"
    unfolding extends_def by blast
  then show ?thesis by (simp add: smart_default_unfold s Let_def)
qed

lemma smart_default_without_search:
  assumes "\<not> wants_search r"
  shows "\<forall>t \<in> set (create_smart_default_workflow r l). step_type t \<noteq> Some ''search''"
proof -
  from assms have s: "add_search r l [] = []"
    by (simp add: wants_search_def add_search_def Let_def)
  from assms have "extract_urls r \<noteq> [] \<or> any_keyword download_keywords (str_lower r)"
    by (auto simp: wants_search_def download_keyword)
  then have d: "add_download r l [] \<noteq> []" and nd: "\<forall>t \<in> set (add_download r l []). step_type t \<noteq> Some ''search''"
    by (auto simp: add_download_def Let_def mk_task_def)
  from after_search_extends [of "add_download r l []" r l]
  obtain e where e: "after_search r l (add_download r l []) = add_download r l [] @ e"
    "\<forall>t \<in> set e. step_type t \<noteq> Some ''search''"
    unfolding extends_def by blast
  with d nd show ?thesis by (auto simp: smart_default_unfold s Let_def)
qed


section \<open>The scans of the quantity extractor, word by word\<close>
















section \<open>The execution loop\<close>





text \<open>
  Claim C3, as amended. The claim says that the router signals termination for a ready task whose
  step type is none of the eight. The router returns \<^verbatim>\<open>"end"\<close> only when \<^verbatim>\<open>step_type\<close> is absent,
  empty or the text \<^verbatim>\<open>"end"\<close> itself; any other text is returned as it is, and the conditional
  edge has no target for it: the router does not answer \<^verbatim>\<open>"end"\<close> for the step type \<^verbatim>\<open>"filter"\<close>,
  and the run stops without a final state.
\<close>

theorem unknown_step_type_not_end:
  "fst (should_continue ((state_with odd_plan)\<lparr>current_step := 1\<rparr>)) = ''filter'' \<and>
   map_of conditional_edges ''filter'' = None \<and>
   run_graph (agents_of quiet_agent) ((state_with odd_plan)\<lparr>current_step := 1\<rparr>) =
     Raised (NoEdge ''filter'')"
  by code_simp

text \<open>
  What holds: at a position \<open>p\<close> whose dependencies are met and whose step type is none of the
  eight, the router leaves the state as it is and returns the name \<open>route_name\<close> gives; the run
  from there executes no position at all (neither \<open>p\<close> nor a later one), and it ends with the
  state unchanged when that name is \<^verbatim>\<open>"end"\<close>, and without a final state otherwise.
\<close>

theorem unknown_step_type_stops_run:
  assumes "current_step s = p" and "p < length (workflow_plan s)"
    and "all_deps_met p (dependencies (workflow_plan s ! p))"
    and "step_type (workflow_plan s ! p) \<notin> Some ` set known_step_types"
  shows "should_continue s = (route_name (step_type (workflow_plan s ! p)), s) \<and>
         visits ags s = [] \<and>
         run_graph ags s =
           (if route_name (step_type (workflow_plan s ! p)) = ''end'' then Finished s
            else Raised (NoEdge (route_name (step_type (workflow_plan s ! p)))))"
proof -
  from assms have a: "current_step s < length (workflow_plan s)"
    and b: "all_deps_met (current_step s) (dependencies (workflow_plan s ! current_step s))"
    and c: "step_type (workflow_plan s ! current_step s) \<notin> Some ` set known_step_types"
    by simp_all
  from ready_route(1) [OF a b] unknown_type_stops(1) [OF a b c, of ags]
       unknown_type_stops(2) [OF a b c, of ags]
  show ?thesis unfolding assms(1) by simp
qed

theorem unknown_step_type_stops_run_demo:
  "visits (agents_of quiet_agent) ((state_with odd_plan)\<lparr>current_step := 1\<rparr>) = [] \<and>
   run_graph (agents_of quiet_agent) ((state_with odd_plan)\<lparr>current_step := 1\<rparr>) =
     Raised (NoEdge ''filter'')"
proof -
  let ?s = "(state_with odd_plan)\<lparr>current_step := 1\<rparr>"
  have a: "current_step ?s = 1" by simp
  have b: "1 < length (workflow_plan ?s)" by (simp add: state_with_def odd_plan_def)
  have c: "all_deps_met 1 (dependencies (workflow_plan ?s ! 1))"
    by (simp add: state_with_def odd_plan_def mk_task_def)
  have t: "step_type (workflow_plan ?s ! 1) = Some ''filter''"
    by (simp add: state_with_def odd_plan_def mk_task_def)
  have d: "step_type (workflow_plan ?s ! 1) \<notin> Some ` set known_step_types"
    unfolding t by (simp add: known_step_types_def)
  from unknown_step_type_stops_run [OF a b c d, of "agents_of quiet_agent"]
  show ?thesis unfolding t by (simp add: route_name_def)
qed







section \<open>The quantity extractor\<close>




section \<open>The heuristic builder\<close>

text \<open>
  Claim C9. For the request \<^verbatim>\<open>"Create a map of 7 flood datasets"\<close> the quantity extractor
  yields 7, whatever the word converter, and with that hint the heuristic builder returns three
  tasks: a search with \<^verbatim>\<open>limit\<close> 7, a download inserted for the visualization that depends on the
  search (position 0), and a visualization that depends on that download (position 1). The
  planner hands on this very plan when the language model's reply holds no plan.
\<close>

theorem scenario_d:
  "extract_number w2n ''Create a map of 7 flood datasets'' = Some 7 \<and>
   create_smart_default_workflow ''Create a map of 7 flood datasets'' (Some 7) =
     [mk_task ''search''
        ''Search for geospatial datasets related to: Create a map of 7 flood datasets''
        [(''query'', PStr ''Create a map of 7 flood datasets''), (''limit'', PInt 7)] [],
      mk_task ''download'' ''Download datasets needed for visualization''
        [(''limit'', PInt 5)] [0],
      mk_task ''visualization'' ''Create visualization of the results'' [] [1]] \<and>
   workflow_plan (plan_workflow w2n None (initial_state ''Create a map of 7 flood datasets'')) =
     create_smart_default_workflow ''Create a map of 7 flood datasets'' (Some 7)"
proof -
  have n: "extract_number w2n ''Create a map of 7 flood datasets'' = Some 7"
    by (simp add: extract_number_def digits_cands_def match_at_def boundary_def last_is_word_def
          is_word_char_def is_digit_def code_def int_of_digits_def)
  have p: "create_smart_default_workflow ''Create a map of 7 flood datasets'' (Some 7) =
     [mk_task ''search''
        ''Search for geospatial datasets related to: Create a map of 7 flood datasets''
        [(''query'', PStr ''Create a map of 7 flood datasets''), (''limit'', PInt 7)] [],
      mk_task ''download'' ''Download datasets needed for visualization''
        [(''limit'', PInt 5)] [0],
      mk_task ''visualization'' ''Create visualization of the results'' [] [1]]"
    by code_simp
  have "workflow_plan (plan_workflow w2n None (initial_state ''Create a map of 7 flood datasets'')) =
     validate_plan ''Create a map of 7 flood datasets'' (Some 7)
       (create_smart_default_workflow ''Create a map of 7 flood datasets'' (Some 7))"
    by (simp add: plan_workflow_def Let_def initial_state_def n)
  also have "\<dots> = create_smart_default_workflow ''Create a map of 7 flood datasets'' (Some 7)"
    unfolding p by (simp add: validate_plan_def inject_limit_def mk_task_def)
  finally show ?thesis using n p by simp
qed

theorem scenario_d_length:
  "length (create_smart_default_workflow ''Create a map of 7 flood datasets'' (Some 7)) = 3"
  using scenario_d [of "\<lambda>t. None"] by simp

text \<open>
  Claim C7, as amended. The claim lets the synonyms of \<^verbatim>\<open>"download"\<close> suppress the search task
  and sets \<^verbatim>\<open>limit\<close> only when there is a hint. The source tests the one word \<^verbatim>\<open>"download"\<close>, and it
  always sets \<^verbatim>\<open>limit\<close>: \<^verbatim>\<open>"get data"\<close> holds the synonym \<^verbatim>\<open>"get"\<close>, no URL and no \<^verbatim>\<open>"search"\<close>, and yet
  its plan starts with a search task, whose \<^verbatim>\<open>limit\<close> is 10 without any hint.
\<close>

theorem synonym_keeps_search:
  "extract_urls ''get data'' = [] \<and>
   any_keyword download_keywords (str_lower ''get data'') \<and>
   \<not> str_in ''search'' (str_lower ''get data'') \<and>
   create_smart_default_workflow ''get data'' None =
     [mk_task ''search'' ''Search for geospatial datasets related to: get data''
        [(''query'', PStr ''get data''), (''limit'', PInt 10)] [],
      mk_task ''download'' ''Download the identified datasets'' [(''limit'', PInt 5)] [0]]"
  by code_simp

text \<open>
  What holds: the plan holds a search task exactly when the request has no URL and its lowercased
  text lacks \<^verbatim>\<open>"download"\<close> or contains \<^verbatim>\<open>"search"\<close>; the task is then the first one and the only
  search task, its \<^verbatim>\<open>query\<close> is the full request text, and its \<^verbatim>\<open>limit\<close> is the hint when there is
  one other than 0, and 10 otherwise.
\<close>

theorem search_task_first:
  "(wants_search request \<longleftrightarrow>
      extract_urls request = [] \<and>
      (\<not> str_in ''download'' (str_lower request) \<or> str_in ''search'' (str_lower request))) \<and>
   (wants_search request \<longrightarrow>
      (\<exists>rest. create_smart_default_workflow request lim = search_task request lim # rest \<and>
         (\<forall>t \<in> set rest. step_type t \<noteq> Some ''search''))) \<and>
   (\<not> wants_search request \<longrightarrow>
      (\<forall>t \<in> set (create_smart_default_workflow request lim). step_type t \<noteq> Some ''search'')) \<and>
   step_type (search_task request lim) = Some ''search'' \<and>
   parameters (search_task request lim) =
     [(''query'', PStr request),
      (''limit'', PInt (case lim of None \<Rightarrow> 10 | Some n \<Rightarrow> if n = 0 then 10 else n))]"
proof -
  have "parameters (search_task request lim) =
     [(''query'', PStr request),
      (''limit'', PInt (case lim of None \<Rightarrow> 10 | Some n \<Rightarrow> if n = 0 then 10 else n))]"
    by (simp add: search_task_def mk_task_def default_limit_def split: option.split)
  moreover have "step_type (search_task request lim) = Some ''search''"
    by (simp add: search_task_def mk_task_def)
  ultimately show ?thesis
    using smart_default_with_search [of request lim] smart_default_without_search [of request lim]
    by (simp add: wants_search_def)
qed

theorem search_task_first_demo:
  "\<exists>rest. create_smart_default_workflow ''find dams'' (Some 0) = search_task ''find dams'' (Some 0) # rest \<and>
     parameters (search_task ''find dams'' (Some 0)) = [(''query'', PStr ''find dams''), (''limit'', PInt 10)]"
proof -
  have "wants_search ''find dams''" by code_simp
  with search_task_first [of "''find dams''" "Some 0"] show ?thesis by auto
qed




text \<open>
  Claim C6. For every request text, the empty text included, and every optional quantity hint,
  \<^verbatim>\<open>_create_smart_default_workflow\<close> returns at least one task; and so does the planner, which
  falls back on it when the plan it parsed is empty.
\<close>

theorem smart_default_nonempty:
  "create_smart_default_workflow request requested_limit \<noteq> [] \<and>
   workflow_plan (plan_workflow w2n llm_plan state) \<noteq> []"
proof -
  have b: "create_smart_default_workflow r l \<noteq> []" for r l
    by (simp add: create_smart_default_workflow_def Let_def)
  have "validate_plan r l p \<noteq> []" for r l p
    using b [of r l] by (simp add: validate_plan_def split: option.split)
  then show ?thesis using b by (simp add: plan_workflow_def Let_def)
qed

theorem smart_default_nonempty_empty_request:
  "create_smart_default_workflow [] None \<noteq> [] \<and> create_smart_default_workflow [] (Some 0) \<noteq> [] \<and>
   workflow_plan (plan_workflow (\<lambda>t. None) (Some []) (initial_state [])) \<noteq> []"
  using smart_default_nonempty [of "[]" None "\<lambda>t. None" "Some []" "initial_state []"]
        smart_default_nonempty [of "[]" "Some 0" "\<lambda>t. None" "Some []" "initial_state []"]
  by simp

end
